theory Spec2Isabelle
  imports Main "HOL-Library.Sublist"
begin

section \<open>Python values used by \<open>onnxcli inspect\<close>\<close>

text \<open>
  The exceptions the command can raise. \<open>ValueError\<close> carries the message the source
  builds; \<open>TypeError\<close> is what Python raises when a function is called with the wrong
  number of positional arguments, \<open>AttributeError\<close> when an attribute is missing,
  \<open>IndexError\<close> when a sequence is indexed out of range. \<open>LoadError\<close> stands for any
  failure of \<open>onnx.load_model\<close>.
\<close>

datatype error =
    ValueError string
  | TypeError string
  | AttributeError string
  | IndexError
  | LoadError

text \<open>\<open>str\<close> of a Python integer, as \<open>"{}".format(n)\<close> renders it.\<close>

definition digit_char :: "nat \<Rightarrow> char" where
  "digit_char d = ''0123456789'' ! d"

fun str_nat :: "nat \<Rightarrow> string" where
  "str_nat n = (if n < 10 then [digit_char n] else str_nat (n div 10) @ [digit_char (n mod 10)])"

declare str_nat.simps [simp del]

definition str_int :: "int \<Rightarrow> string" where
  "str_int i = (if i < 0 then CHR ''-'' # str_nat (nat (- i)) else str_nat (nat i))"

text \<open>
  \<open>xs[i]\<close> on a Python sequence (a protobuf repeated field behaves like a list): a
  negative index counts from the end, and an index outside \<open>-len(xs) .. len(xs) - 1\<close>
  raises \<open>IndexError\<close>.
\<close>

definition getitem :: "'a list \<Rightarrow> int \<Rightarrow> error + 'a" where
  "getitem xs i =
     (if 0 \<le> i \<and> i < int (length xs) then Inr (xs ! nat i)
      else if i < 0 \<and> 0 \<le> int (length xs) + i then Inr (xs ! nat (int (length xs) + i))
      else Inl IndexError)"

text \<open>\<open>print(a, b, c)\<close> writes its arguments on one line, separated by one space.\<close>

fun print_sep :: "string list \<Rightarrow> string" where
  "print_sep [] = []"
| "print_sep [a] = a"
| "print_sep (a # b # rest) = a @ '' '' @ print_sep (b # rest)"

section \<open>The ONNX messages the command reads\<close>

text \<open>
  Payloads the command never looks into (it only takes their \<open>len\<close> or hands them to
  \<open>str\<close>) are kept opaque.
\<close>

typedecl attribute_proto
typedecl pyfloat
typedecl operator_set_id_proto
typedecl sparse_tensor_proto
typedecl tensor_annotation

text \<open>
  A dimension of a \<open>TensorShapeProto\<close> holds a concrete size, a symbolic name, or
  neither.
\<close>

datatype dimension = Dim_value int | Dim_param string | Dim_unset

text \<open>
  Field names follow the protobuf schema; \<open>name\<close>, \<open>input\<close> and \<open>output\<close>, which
  several messages share, carry the message's initial as a prefix.
  \<open>elem_type\<close> and \<open>shape\<close> of a value-info are \<open>t.type.tensor_type.elem_type\<close> and
  \<open>t.type.tensor_type.shape\<close>.
\<close>

record node_proto =
  n_name :: string
  op_type :: string
  n_input :: "string list"
  n_output :: "string list"
  attribute :: "attribute_proto list"

record value_info_proto =
  vi_name :: string
  elem_type :: int
  shape :: "dimension list"

record tensor_proto =
  t_name :: string
  data_type :: int
  dims :: "int list"
  float_data :: "pyfloat list"

record graph_proto =
  g_name :: string
  g_node :: "node_proto list"
  g_input :: "value_info_proto list"
  g_output :: "value_info_proto list"
  g_value_info :: "value_info_proto list"
  g_initializer :: "tensor_proto list"
  g_sparse_initializer :: "sparse_tensor_proto list"
  g_quantization_annotation :: "tensor_annotation list"

record string_string_entry =
  key :: string
  val :: string

record model_proto =
  ir_version :: int
  opset_import :: "operator_set_id_proto list"
  producer_name :: string
  producer_version :: string
  domain :: string
  doc_string :: string
  metadata_props :: "string_string_entry list"
  graph :: graph_proto

text \<open>The parsed command line (\<open>add_args\<close>): three \<open>store_true\<close> flags select what to
  print, \<open>indices\<close> and \<open>names\<close> default to the empty list.\<close>

record args =
  input_path :: string
  meta :: bool
  node :: bool
  tensor :: bool
  indices :: "int list"
  names :: "string list"
  detail :: bool

text \<open>
  Rendering done outside this module: \<open>dtype\<close> and \<open>shape\<close> of \<open>onnxcli.common\<close>
  (each followed by \<open>str\<close>), and \<open>str\<close> of protobuf repeated fields.
\<close>

record renderer =
  dtype :: "int \<Rightarrow> string"
  shape_str :: "dimension list \<Rightarrow> string"
  str_dims :: "int list \<Rightarrow> string"
  str_float_data :: "pyfloat list \<Rightarrow> string"
  str_strings :: "string list \<Rightarrow> string"
  str_attribute :: "attribute_proto list \<Rightarrow> string"
  str_opset_import :: "operator_set_id_proto list \<Rightarrow> string"

section \<open>Standard output and exceptions\<close>

text \<open>
  What a run writes is recorded as the sequence of its printing calls: a direct
  \<open>print\<close> of a finished line, or a call of one of the local printers
  \<open>print_value_info\<close>, \<open>print_initializer\<close>, \<open>print_node\<close> with its arguments.
  A computation yields the calls made so far and either the exception that ended it
  or its result.
\<close>

datatype call =
    Print string
  | Print_value_info value_info_proto
  | Print_initializer tensor_proto bool
  | Print_node node_proto bool

type_synonym 'a io = "call list \<times> (error + 'a)"

definition return :: "'a \<Rightarrow> 'a io" where
  "return x = ([], Inr x)"

definition raise :: "error \<Rightarrow> 'a io" where
  "raise e = ([], Inl e)"

definition emit :: "call \<Rightarrow> unit io" where
  "emit c = ([c], Inr ())"

fun bind :: "'a io \<Rightarrow> ('a \<Rightarrow> 'b io) \<Rightarrow> 'b io" where
  "bind (out, Inl e) f = (out, Inl e)"
| "bind (out, Inr x) f = (case f x of (out', r) \<Rightarrow> (out @ out', r))"

text \<open>\<open>for x in xs: body\<close>, the body threading the loop's local state.\<close>

fun for_each :: "'a list \<Rightarrow> ('a \<Rightarrow> 's \<Rightarrow> 's io) \<Rightarrow> 's \<Rightarrow> 's io" where
  "for_each [] body s = return s"
| "for_each (x # xs) body s = bind (body x s) (for_each xs body)"

definition dashes :: string where
  "dashes = replicate 80 CHR ''-''"

section \<open>The local printers\<close>

definition print_value_info :: "renderer \<Rightarrow> value_info_proto \<Rightarrow> string list" where
  \<open>print_value_info r t =
     [''  ValueInfo "'' @ vi_name t @ ''":''
        @ '' type '' @ dtype r (elem_type t) @ '',''
        @ '' shape '' @ shape_str r (shape t) @ '','']\<close>

definition print_initializer :: "renderer \<Rightarrow> tensor_proto \<Rightarrow> bool \<Rightarrow> string list" where
  \<open>print_initializer r t detail_flag =
     [''  Initializer "'' @ t_name t @ ''":''
        @ '' type '' @ dtype r (data_type t) @ '',''
        @ '' shape '' @ str_dims r (dims t) @ '','']
     @ (if detail_flag then [''    float data: '' @ str_float_data r (float_data t)] else [])\<close>

definition print_node :: "renderer \<Rightarrow> node_proto \<Rightarrow> bool \<Rightarrow> string list" where
  \<open>print_node r n detail_flag =
     [''  Node "'' @ n_name n @ ''":''
        @ '' type "'' @ op_type n @ ''",''
        @ '' inputs "'' @ str_strings r (n_input n) @ ''",''
        @ '' outputs "'' @ str_strings r (n_output n) @ ''"'']
     @ (if detail_flag \<and> length (attribute n) > 0
        then [''    attributes: '' @ str_attribute r (attribute n)] else [])\<close>

text \<open>The lines a sequence of printing calls leaves on standard output.\<close>

fun lines_of :: "renderer \<Rightarrow> call \<Rightarrow> string list" where
  "lines_of r (Print s) = [s]"
| "lines_of r (Print_value_info t) = print_value_info r t"
| "lines_of r (Print_initializer t d) = print_initializer r t d"
| "lines_of r (Print_node n d) = print_node r n d"

definition stdout :: "renderer \<Rightarrow> call list \<Rightarrow> string list" where
  "stdout r cs = concat (map (lines_of r) cs)"

section \<open>\<open>print_meta\<close> and \<open>print_basic\<close>\<close>

definition print_meta :: "renderer \<Rightarrow> model_proto \<Rightarrow> unit io" where
  "print_meta r m =
     bind (emit (Print ''Meta information:'')) (\<lambda>_.
     bind (emit (Print dashes)) (\<lambda>_.
     bind (emit (Print (''  IR Version: '' @ str_int (ir_version m)))) (\<lambda>_.
     bind (emit (Print (''  Opset Import: '' @ str_opset_import r (opset_import m)))) (\<lambda>_.
     bind (emit (Print (''  Producer name: '' @ producer_name m))) (\<lambda>_.
     bind (emit (Print (''  Producer version: '' @ producer_version m))) (\<lambda>_.
     bind (emit (Print (''  Domain: '' @ domain m))) (\<lambda>_.
     bind (emit (Print (''  Doc string: '' @ doc_string m))) (\<lambda>_.
     for_each (metadata_props m)
       (\<lambda>i _. emit (Print (print_sep [''  meta.{} = {}'', key i, val i]))) ()))))))))"

definition print_basic :: "graph_proto \<Rightarrow> unit io" where
  "print_basic g =
     bind (emit (Print (''  Graph name: '' @ str_nat (length (g_name g))))) (\<lambda>_.
     bind (emit (Print (''  Graph inputs: '' @ str_nat (length (g_input g))))) (\<lambda>_.
     bind (emit (Print (''  Graph outputs: '' @ str_nat (length (g_output g))))) (\<lambda>_.
     bind (emit (Print (''  Nodes in total: '' @ str_nat (length (g_node g))))) (\<lambda>_.
     bind (emit (Print (''  ValueInfo in total: '' @ str_nat (length (g_value_info g))))) (\<lambda>_.
     bind (emit (Print (''  Initializers in total: '' @ str_nat (length (g_initializer g))))) (\<lambda>_.
     bind (emit (Print (''  Sparse Initializers in total: ''
                          @ str_nat (length (g_sparse_initializer g))))) (\<lambda>_.
     emit (Print (''  Quantization in total: ''
                    @ str_nat (length (g_quantization_annotation g)))))))))))"

text \<open>
  A call \<open>print_basic(...)\<close> with its positional arguments. \<open>print_basic\<close> is declared
  with the single parameter \<open>g\<close>: any other number of arguments raises \<open>TypeError\<close>
  before the body runs, and a namespace passed as \<open>g\<close> has no attribute \<open>name\<close>.
\<close>

datatype pyobj = Namespace args | GraphProto graph_proto

fun print_basic_call :: "pyobj list \<Rightarrow> unit io" where
  "print_basic_call [GraphProto g] = print_basic g"
| "print_basic_call [Namespace a] =
     raise (AttributeError ''Namespace object has no attribute name'')"
| "print_basic_call [] =
     raise (TypeError ''print_basic() missing 1 required positional argument: g'')"
| "print_basic_call (a # b # rest) =
     raise (TypeError (''print_basic() takes 1 positional argument but ''
                        @ str_nat (length (a # b # rest)) @ '' were given''))"

section \<open>\<open>print_tensor\<close>\<close>

text \<open>
  One of the four blocks of the index loop,
  \<open>if idx < len(xs): printed_any = True; pr(xs[idx])\<close>:
  the guard compares \<open>idx\<close> with the length only, the element access is Python's.
\<close>

definition probe_index :: "'a list \<Rightarrow> int \<Rightarrow> ('a \<Rightarrow> call) \<Rightarrow> bool \<Rightarrow> bool io" where
  "probe_index xs idx pr printed_any =
     (if idx < int (length xs)
      then (case getitem xs idx of
              Inl e \<Rightarrow> raise e
            | Inr t \<Rightarrow> bind (emit (pr t)) (\<lambda>_. return True))
      else return printed_any)"

text \<open>The body of \<open>for idx in indices\<close>; \<open>printed_any\<close> is reset for every index.\<close>

definition print_tensor_index :: "graph_proto \<Rightarrow> bool \<Rightarrow> int \<Rightarrow> unit io" where
  "print_tensor_index g detail_flag idx =
     bind (probe_index (g_value_info g) idx Print_value_info False) (\<lambda>printed_any.
     bind (probe_index (g_initializer g) idx (\<lambda>t. Print_initializer t detail_flag) printed_any)
       (\<lambda>printed_any.
     bind (probe_index (g_input g) idx Print_value_info printed_any) (\<lambda>printed_any.
     bind (probe_index (g_output g) idx Print_value_info printed_any) (\<lambda>printed_any.
     if \<not> printed_any
     then raise (ValueError ''indices {} out of range, check the total size of tensors'')
     else return ()))))"

text \<open>
  One of the inner loops of the name loop,
  \<open>for i in xs: if i.name == name: pr(i); printed_any = True; break\<close>.
\<close>

definition probe_name ::
  "('a \<Rightarrow> string) \<Rightarrow> 'a list \<Rightarrow> string \<Rightarrow> ('a \<Rightarrow> call) \<Rightarrow> bool \<Rightarrow> bool io" where
  "probe_name name_of xs name pr printed_any =
     (case find (\<lambda>i. name_of i = name) xs of
        None \<Rightarrow> return printed_any
      | Some i \<Rightarrow> bind (emit (pr i)) (\<lambda>_. return True))"

text \<open>The body of \<open>for name in names\<close>; \<open>printed_any\<close> is shared by all names.\<close>

definition print_tensor_name :: "graph_proto \<Rightarrow> bool \<Rightarrow> string \<Rightarrow> bool \<Rightarrow> bool io" where
  "print_tensor_name g detail_flag name printed_any =
     bind (probe_name vi_name (g_value_info g) name Print_value_info printed_any)
       (\<lambda>printed_any.
     bind (probe_name t_name (g_initializer g) name (\<lambda>t. Print_initializer t detail_flag)
             printed_any) (\<lambda>printed_any.
     bind (probe_name vi_name (g_input g) name Print_value_info printed_any) (\<lambda>printed_any.
     probe_name vi_name (g_output g) name Print_value_info printed_any)))"

text \<open>After the name loop, \<open>name\<close> is still bound to the last element of \<open>names\<close>.\<close>

definition print_tensor :: "graph_proto \<Rightarrow> int list \<Rightarrow> string list \<Rightarrow> bool \<Rightarrow> unit io" where
  "print_tensor g idxs nms detail_flag =
     bind (emit (Print ''Tensor information:'')) (\<lambda>_.
     bind (emit (Print dashes)) (\<lambda>_.
     if length idxs > 0
     then for_each idxs (\<lambda>idx _. print_tensor_index g detail_flag idx) ()
     else if length nms > 0
     then bind (for_each nms (print_tensor_name g detail_flag) False) (\<lambda>printed_any.
          if \<not> printed_any
          then raise (ValueError (''No tensor found with name '' @ last nms))
          else return ())
     else bind (for_each (g_value_info g) (\<lambda>t _. emit (Print_value_info t)) ()) (\<lambda>_.
          for_each (g_initializer g) (\<lambda>t _. emit (Print_initializer t False)) ())))"

section \<open>\<open>print_nodes\<close>\<close>

text \<open>The body of \<open>for idx in indices\<close>.\<close>

definition print_nodes_index :: "graph_proto \<Rightarrow> bool \<Rightarrow> int \<Rightarrow> unit io" where
  "print_nodes_index g detail_flag idx =
     (if idx \<ge> int (length (g_node g))
      then raise (ValueError (''indices '' @ str_int idx @ '' out of range, node in total ''
                               @ str_nat (length (g_node g))))
      else (case getitem (g_node g) idx of
              Inl e \<Rightarrow> raise e
            | Inr n \<Rightarrow> emit (Print_node n detail_flag)))"

text \<open>
  \<open>collections.Counter\<close> over a list: a dictionary in insertion order, a key's count
  incremented in place. \<open>most_common()\<close> is
  \<open>sorted(items, key=itemgetter(1), reverse=True)\<close>, a stable sort by descending
  count.
\<close>

fun count_up :: "'k \<Rightarrow> ('k \<times> nat) list \<Rightarrow> ('k \<times> nat) list" where
  "count_up k [] = [(k, 1)]"
| "count_up k ((k', c) # kvs) =
     (if k = k' then (k', c + 1) # kvs else (k', c) # count_up k kvs)"

definition Counter :: "'k list \<Rightarrow> ('k \<times> nat) list" where
  "Counter xs = foldl (\<lambda>d k. count_up k d) [] xs"

definition most_common :: "('k \<times> nat) list \<Rightarrow> ('k \<times> nat) list" where
  "most_common d = sort_key (\<lambda>kc. - int (snd kc)) d"

definition node_type_line :: "string \<times> nat \<Rightarrow> call" where
  \<open>node_type_line oc =
     Print (''  Node type "'' @ fst oc @ ''" has: '' @ str_nat (snd oc))\<close>

definition print_nodes :: "graph_proto \<Rightarrow> int list \<Rightarrow> string list \<Rightarrow> bool \<Rightarrow> unit io" where
  "print_nodes g idxs nms detail_flag =
     bind (emit (Print ''Node information:'')) (\<lambda>_.
     bind (emit (Print dashes)) (\<lambda>_.
     if length idxs > 0
     then for_each idxs (\<lambda>idx _. print_nodes_index g detail_flag idx) ()
     else if length nms > 0
     then bind (for_each nms
                  (\<lambda>name. probe_name n_name (g_node g) name (\<lambda>n. Print_node n detail_flag))
                  False) (\<lambda>found_any.
          if \<not> found_any
          then raise (ValueError (''No node found with name '' @ last nms))
          else return ())
     else bind (for_each (most_common (Counter (map op_type (g_node g))))
                  (\<lambda>oc _. emit (node_type_line oc)) ()) (\<lambda>_.
          bind (emit (Print dashes)) (\<lambda>_.
          for_each (g_node g) (\<lambda>n _. emit (Print_node n False)) ()))))"

section \<open>\<open>InspectCmd.run\<close>\<close>

text \<open>
  \<open>args.node\<close> and \<open>args.tensor\<close> come from \<open>store_true\<close> options, so they are
  \<open>True\<close> or \<open>False\<close>; \<open>x is None\<close> is false for both.
\<close>

definition is_None :: "bool \<Rightarrow> bool" where
  "is_None b = False"

text \<open>The three checks on the flags that open \<open>run\<close>.\<close>

definition validate :: "args \<Rightarrow> unit io" where
  "validate a =
     (let has_indices = (length (indices a) \<noteq> 0);
          has_names = (length (names a) \<noteq> 0);
          no_tensor_or_node = (is_None (node a) \<and> is_None (tensor a))
      in if has_indices \<and> has_names
         then raise (ValueError ''Can NOT set both --indices and --names'')
         else if (has_indices \<or> has_indices) \<and> no_tensor_or_node
         then raise (ValueError
                 ''Can NOT set --indices or --names without --node or --tensor'')
         else if (\<not> has_indices \<and> \<not> has_names) \<and> detail a
         then raise (ValueError ''Can NOT set --detail without --indices or --names'')
         else return ())"

text \<open>
  \<open>run\<close>, given the loader \<open>onnx.load_model\<close>. The model check before loading only
  logs a warning; logging does not reach standard output.
\<close>

definition run :: "renderer \<Rightarrow> (string \<Rightarrow> error + model_proto) \<Rightarrow> args \<Rightarrow> unit io" where
  "run r load_model a =
     bind (validate a) (\<lambda>_.
     case load_model (input_path a) of
       Inl e \<Rightarrow> raise e
     | Inr m \<Rightarrow>
         (let g = graph m in
          bind (if meta a then bind (print_meta r m) (\<lambda>_. return True) else return False)
            (\<lambda>printed_any.
          bind (if node a
                then bind (print_nodes g (indices a) (names a) (detail a)) (\<lambda>_. return True)
                else return printed_any) (\<lambda>printed_any.
          bind (if tensor a
                then bind (print_tensor g (indices a) (names a) (detail a)) (\<lambda>_. return True)
                else return printed_any) (\<lambda>printed_any.
          if \<not> printed_any then print_basic_call [Namespace a, GraphProto g]
          else return ())))))"

section \<open>Notions used in the statements\<close>

text \<open>The first element of a collection that carries a given name, if there is one.\<close>

definition first_named :: "('a \<Rightarrow> string) \<Rightarrow> 'a list \<Rightarrow> string \<Rightarrow> 'a list" where
  "first_named name_of xs name = take 1 (filter (\<lambda>i. name_of i = name) xs)"

text \<open>The names found in the four tensor collections of a graph.\<close>

definition tensor_names :: "graph_proto \<Rightarrow> string set" where
  "tensor_names g = vi_name ` set (g_value_info g) \<union> t_name ` set (g_initializer g)
                    \<union> vi_name ` set (g_input g) \<union> vi_name ` set (g_output g)"




text \<open>The element of a collection that a negative index counts from the end.\<close>

definition from_end :: "'a list \<Rightarrow> int \<Rightarrow> 'a" where
  "from_end xs i = xs ! nat (int (length xs) + i)"

text \<open>The position at which a value is first met in a list.\<close>

fun first_index :: "'a list \<Rightarrow> 'a \<Rightarrow> nat" where
  "first_index [] a = 0"
| "first_index (x # xs) a = (if x = a then 0 else Suc (first_index xs a))"

section \<open>Sample inputs\<close>

definition empty_graph :: graph_proto where
  "empty_graph = \<lparr>g_name = [], g_node = [], g_input = [], g_output = [], g_value_info = [],
     g_initializer = [], g_sparse_initializer = [], g_quantization_annotation = []\<rparr>"

text \<open>
  Three nodes (Conv, Relu, Conv), one graph input, no graph output, two value-infos
  and one initializer; the name \<open>x\<close> is both a value-info and an initializer.
\<close>

definition sample_graph :: graph_proto where
  "sample_graph =
     \<lparr>g_name = ''net'',
      g_node = [\<lparr>n_name = ''c1'', op_type = ''Conv'', n_input = [''in''], n_output = [''x''],
                 attribute = []\<rparr>,
                \<lparr>n_name = ''r1'', op_type = ''Relu'', n_input = [''x''], n_output = [''y''],
                 attribute = []\<rparr>,
                \<lparr>n_name = ''c2'', op_type = ''Conv'', n_input = [''y''], n_output = [''out''],
                 attribute = []\<rparr>],
      g_input = [\<lparr>vi_name = ''in'', elem_type = 1, shape = [Dim_value 1, Dim_param ''N'']\<rparr>],
      g_output = [],
      g_value_info = [\<lparr>vi_name = ''x'', elem_type = 1, shape = [Dim_value 1]\<rparr>,
                      \<lparr>vi_name = ''y'', elem_type = 1, shape = [Dim_unset]\<rparr>],
      g_initializer = [\<lparr>t_name = ''x'', data_type = 1, dims = [3], float_data = []\<rparr>],
      g_sparse_initializer = [],
      g_quantization_annotation = []\<rparr>"

text \<open>A graph whose only tensor is one initializer.\<close>

definition initializer_only_graph :: graph_proto where
  "initializer_only_graph =
     \<lparr>g_name = ''w'', g_node = [], g_input = [], g_output = [], g_value_info = [],
      g_initializer = [\<lparr>t_name = ''w'', data_type = 1, dims = [2], float_data = []\<rparr>],
      g_sparse_initializer = [], g_quantization_annotation = []\<rparr>"

definition sample_model :: model_proto where
  "sample_model =
     \<lparr>ir_version = 7, opset_import = [], producer_name = ''pytorch'',
      producer_version = ''1.9'', domain = [], doc_string = [],
      metadata_props = [\<lparr>key = ''author'', val = ''me''\<rparr>],
      graph = empty_graph\<rparr>"

section \<open>Sequencing and loops\<close>

lemma bind_return [simp]: "bind (return x) f = f x"
  by (simp add: return_def split: prod.split)

lemma bind_raise [simp]: "bind (raise e) f = raise e"
  by (simp add: raise_def)

lemma bind_emit: "bind (emit c) f = (c # fst (f ()), snd (f ()))"
  by (simp add: emit_def split: prod.split)

lemma bind_pair_Inr: "bind (out, Inr x) f = (out @ fst (f x), snd (f x))"
  by (simp split: prod.split)

lemma snd_bind_Inr: "snd p = Inr x \<Longrightarrow> snd (bind p f) = snd (f x)"
  by (cases p) (simp split: prod.split)

lemma for_each_emit: "for_each xs (\<lambda>x _. emit (p x)) () = (map p xs, Inr ())"
proof (induction xs)
  case Nil
  show ?case by (simp add: return_def)
next
  case (Cons x xs)
  then show ?case by (simp add: bind_emit)
qed

text \<open>A loop whose body can only turn a flag on ends with the flag on exactly when it
  was on before or some element turned it on.\<close>

lemma for_each_found:
  "(\<And>x pa. snd (body x pa) = Inr (pa \<or> P x)) \<Longrightarrow>
   snd (for_each xs body pa) = Inr (pa \<or> (\<exists>x\<in>set xs. P x))"
proof (induction xs arbitrary: pa)
  case Nil
  show ?case by (simp add: return_def)
next
  case (Cons x xs)
  have b: "body x pa = (fst (body x pa), Inr (pa \<or> P x))"
    using Cons.prems [of x pa] by (simp add: prod_eq_iff)
  have "snd (for_each (x # xs) body pa)
          = snd (for_each xs body (pa \<or> P x))"
    by (simp, subst b, simp split: prod.split)
  also have "\<dots> = Inr ((pa \<or> P x) \<or> (\<exists>y\<in>set xs. P y))"
    using Cons.prems by (rule Cons.IH)
  finally show ?case by auto
qed

lemma for_each_single: "for_each [x] body s = body x s"
proof (cases "body x s")
  case (Pair out res)
  then show ?thesis by (cases res) (simp_all add: return_def)
qed



lemma dashes_Cons: "dashes = CHR ''-'' # replicate 79 CHR ''-''"
proof -
  have "(80::nat) = Suc 79" by simp
  then show ?thesis unfolding dashes_def by (simp only: replicate_Suc)
qed

lemma dashes_not_indented: "dashes \<noteq> CHR '' '' # s"
  by (simp add: dashes_Cons)

section \<open>The aggregate summary and the flag checks\<close>

lemma print_basic_lines:
  "length (fst (print_basic g)) = 8 \<and> snd (print_basic g) = Inr ()"
  by (simp add: print_basic_def bind_emit emit_def)

text \<open>
  C1. With none of \<open>--meta\<close>, \<open>--node\<close>, \<open>--tensor\<close> the run should print the
  eight-line summary. \<open>print_basic\<close> itself prints eight lines
  (\<open>print_basic_lines\<close>), but \<open>run\<close> calls it with two arguments: for every model and
  every renderer the run with no flag set prints nothing and ends in a \<open>TypeError\<close>.
\<close>

theorem run_without_flags_raises_TypeError:
  "run r (\<lambda>_. Inr m)
     \<lparr>input_path = p, meta = False, node = False, tensor = False,
      indices = [], names = [], detail = False\<rparr>
   = ([], Inl (TypeError ''print_basic() takes 1 positional argument but 2 were given''))"
  by (simp add: run_def validate_def is_None_def raise_def str_nat.simps digit_char_def)

lemma validate_outcomes:
  "validate a = return ()
   \<or> validate a = raise (ValueError ''Can NOT set both --indices and --names'')
   \<or> validate a = raise (ValueError ''Can NOT set --detail without --indices or --names'')"
  by (simp add: validate_def is_None_def Let_def)

text \<open>
  C2. An index list without \<open>--node\<close> and without \<open>--tensor\<close> should be refused with
  the message about a selector without target. The guard tests \<open>is None\<close> on flags
  that are booleans, so it never fires: the checks accept such a command line.
\<close>

theorem validate_accepts_selector_without_target:
  "validate
     \<lparr>input_path = p, meta = mt, node = False, tensor = False,
      indices = [0], names = [], detail = dt\<rparr>
   = return ()"
  by (simp add: validate_def is_None_def)

section \<open>Metadata\<close>

lemma print_meta_lines:
  "print_meta r m =
     ([Print ''Meta information:'', Print dashes,
       Print (''  IR Version: '' @ str_int (ir_version m)),
       Print (''  Opset Import: '' @ str_opset_import r (opset_import m)),
       Print (''  Producer name: '' @ producer_name m),
       Print (''  Producer version: '' @ producer_version m),
       Print (''  Domain: '' @ domain m),
       Print (''  Doc string: '' @ doc_string m)] @
      map (\<lambda>i. Print (''  meta.{} = {} '' @ key i @ '' '' @ val i)) (metadata_props m),
      Inr ())"
  by (simp add: print_meta_def bind_emit for_each_emit)

text \<open>
  C7. Every metadata pair should give a line \<open>meta.<key> = <value>\<close>. The loop passes
  the format string, the key and the value to \<open>print\<close> as three arguments and never
  formats: for the pair (author, me) the line printed is \<open>meta.{} = {} author me\<close>,
  and no line \<open>meta.author = me\<close> is printed at all.
\<close>

theorem print_meta_pair_not_formatted:
  "fst (print_meta r sample_model) =
     [Print ''Meta information:'', Print dashes, Print ''  IR Version: 7'',
      Print (''  Opset Import: '' @ str_opset_import r []),
      Print ''  Producer name: pytorch'', Print ''  Producer version: 1.9'',
      Print ''  Domain: '', Print ''  Doc string: '',
      Print ''  meta.{} = {} author me'']
   \<and> Print ''  meta.author = me'' \<notin> set (fst (print_meta r sample_model))"
  by (simp add: print_meta_def sample_model_def bind_emit emit_def return_def
        str_int_def str_nat.simps digit_char_def dashes_not_indented [symmetric])

section \<open>Lookup by index\<close>

lemma probe_index_nonneg:
  "0 \<le> i \<Longrightarrow> probe_index xs i pr pa =
     (if i < int (length xs) then ([pr (xs ! nat i)], Inr True) else ([], Inr pa))"
  by (simp add: probe_index_def getitem_def bind_emit return_def)

lemma probe_index_neg:
  "i < 0 \<Longrightarrow> probe_index xs i pr pa =
     (if 0 \<le> int (length xs) + i then ([pr (xs ! nat (int (length xs) + i))], Inr True)
      else ([], Inl IndexError))"
  by (simp add: probe_index_def getitem_def bind_emit return_def raise_def)







lemma print_tensor_index_neg:
  "i < 0 \<Longrightarrow> print_tensor_index g d i =
       (if int (length (g_value_info g)) + i < 0 then ([], Inl IndexError)
        else if int (length (g_initializer g)) + i < 0
        then ([Print_value_info (from_end (g_value_info g) i)], Inl IndexError)
        else if int (length (g_input g)) + i < 0
        then ([Print_value_info (from_end (g_value_info g) i),
               Print_initializer (from_end (g_initializer g) i) d], Inl IndexError)
        else if int (length (g_output g)) + i < 0
        then ([Print_value_info (from_end (g_value_info g) i),
               Print_initializer (from_end (g_initializer g) i) d,
               Print_value_info (from_end (g_input g) i)], Inl IndexError)
        else ([Print_value_info (from_end (g_value_info g) i),
               Print_initializer (from_end (g_initializer g) i) d,
               Print_value_info (from_end (g_input g) i),
               Print_value_info (from_end (g_output g) i)], Inr ()))"
  by (simp add: print_tensor_index_def probe_index_neg return_def raise_def not_less
        from_end_def)

text \<open>
  C10, as amended. For every negative index \<open>i\<close> the guard \<open>idx < len(xs)\<close> of each
  block lets \<open>i\<close> through: the block reports the element counted from the end when
  \<open>len(xs) + i \<ge> 0\<close> and ends in \<open>IndexError\<close> otherwise. The four collections are
  probed in priority order, so the tensor lookup of \<open>i\<close> stops with \<open>IndexError\<close> at
  the first collection shorter than \<open>-i\<close>, after reporting from the ones before it
  and without reaching the ones after it; it succeeds, with four elements counted
  from the end, only when none of the four is shorter than \<open>-i\<close>; and it never ends
  in the out-of-range \<open>ValueError\<close>.
\<close>

theorem negative_index:
  assumes "i < 0"
  shows "probe_index xs i pr pa =
           (if 0 \<le> int (length xs) + i then ([pr (from_end xs i)], Inr True)
            else ([], Inl IndexError))
   \<and> print_tensor g [i] nms d =
       (if int (length (g_value_info g)) + i < 0
        then ([Print ''Tensor information:'', Print dashes], Inl IndexError)
        else if int (length (g_initializer g)) + i < 0
        then ([Print ''Tensor information:'', Print dashes,
               Print_value_info (from_end (g_value_info g) i)], Inl IndexError)
        else if int (length (g_input g)) + i < 0
        then ([Print ''Tensor information:'', Print dashes,
               Print_value_info (from_end (g_value_info g) i),
               Print_initializer (from_end (g_initializer g) i) d], Inl IndexError)
        else if int (length (g_output g)) + i < 0
        then ([Print ''Tensor information:'', Print dashes,
               Print_value_info (from_end (g_value_info g) i),
               Print_initializer (from_end (g_initializer g) i) d,
               Print_value_info (from_end (g_input g) i)], Inl IndexError)
        else ([Print ''Tensor information:'', Print dashes,
               Print_value_info (from_end (g_value_info g) i),
               Print_initializer (from_end (g_initializer g) i) d,
               Print_value_info (from_end (g_input g) i),
               Print_value_info (from_end (g_output g) i)], Inr ()))"
proof -
  have p: "probe_index xs i pr pa =
           (if 0 \<le> int (length xs) + i then ([pr (from_end xs i)], Inr True)
            else ([], Inl IndexError))"
    using assms by (simp add: probe_index_neg from_end_def)
  have w: "print_tensor g [i] nms d =
             (Print ''Tensor information:'' # Print dashes # fst (print_tensor_index g d i),
              snd (print_tensor_index g d i))"
    by (simp add: print_tensor_def bind_emit for_each_single del: for_each.simps)
  show ?thesis
    unfolding w using assms p by (simp add: print_tensor_index_neg)
qed

theorem negative_index_witness:
  "(- 1 :: int) < 0
   \<and> probe_index (g_value_info sample_graph) (- 1) Print_value_info False =
       ([Print_value_info \<lparr>vi_name = ''y'', elem_type = 1, shape = [Dim_unset]\<rparr>], Inr True)
   \<and> probe_index (g_output sample_graph) (- 1) Print_value_info True = ([], Inl IndexError)
   \<and> print_tensor sample_graph [- 1] [] False =
       ([Print ''Tensor information:'', Print dashes,
         Print_value_info \<lparr>vi_name = ''y'', elem_type = 1, shape = [Dim_unset]\<rparr>,
         Print_initializer \<lparr>t_name = ''x'', data_type = 1, dims = [3], float_data = []\<rparr> False,
         Print_value_info \<lparr>vi_name = ''in'', elem_type = 1,
                            shape = [Dim_value 1, Dim_param ''N'']\<rparr>], Inl IndexError)
   \<and> print_tensor empty_graph [- 1] [] False =
       ([Print ''Tensor information:'', Print dashes], Inl IndexError)"
  using negative_index [of "- 1" "g_value_info sample_graph" Print_value_info False
                           sample_graph "[]" False]
        negative_index [of "- 1" "g_output sample_graph" Print_value_info True
                           empty_graph "[]" False]
  by (simp add: sample_graph_def empty_graph_def from_end_def)

text \<open>
  C10 as first stated fails where an earlier collection is too short: with one
  initializer and no value-info, \<open>len + i \<ge> 0\<close> holds for the initializers at
  \<open>i = -1\<close>, yet the lookup ends in \<open>IndexError\<close> at the value-infos and the
  initializer is never reported.
\<close>

theorem negative_index_earlier_collection_short:
  "g_initializer initializer_only_graph \<noteq> []
   \<and> 0 \<le> int (length (g_initializer initializer_only_graph)) + (- 1)
   \<and> print_tensor initializer_only_graph [- 1] [] False =
       ([Print ''Tensor information:'', Print dashes], Inl IndexError)"
  by (simp add: print_tensor_def bind_emit print_tensor_index_def probe_index_neg
        initializer_only_graph_def raise_def)

lemma node_index_message_names_index:
  assumes "int (length (g_node g)) \<le> i"
  shows "\<exists>msg. print_nodes_index g d i = ([], Inl (ValueError msg)) \<and> sublist (str_int i) msg"
proof -
  let ?msg = "''indices '' @ str_int i @ '' out of range, node in total ''
                @ str_nat (length (g_node g))"
  have "print_nodes_index g d i = ([], Inl (ValueError ?msg))"
    using assms by (simp add: print_nodes_index_def raise_def)
  moreover have "sublist (str_int i) ?msg"
    by (rule sublist_appendI)
  ultimately show ?thesis by blast
qed

text \<open>
  C6. The out-of-range message should carry the offending index. The node lookup
  formats it in (\<open>node_index_message_names_index\<close>); the tensor lookup raises its
  format string unformatted, so for index \<open>0\<close> on the empty graph the message holds
  the placeholder \<open>{}\<close> and no \<open>0\<close>.
\<close>

theorem tensor_index_message_lacks_index:
  "print_tensor empty_graph [0] [] False =
     ([Print ''Tensor information:'', Print dashes],
      Inl (ValueError ''indices {} out of range, check the total size of tensors''))
   \<and> \<not> sublist (str_int 0) ''indices {} out of range, check the total size of tensors''"
  by (simp add: print_tensor_def bind_emit print_tensor_index_def probe_index_nonneg
        empty_graph_def return_def raise_def str_int_def str_nat.simps digit_char_def
        sublist_code)

section \<open>Lookup by name\<close>

lemma find_first_named:
  "take 1 (filter P xs) = (case find P xs of None \<Rightarrow> [] | Some i \<Rightarrow> [i])"
  by (induction xs) auto

lemma first_named_find:
  "first_named name_of xs name =
     (case find (\<lambda>i. name_of i = name) xs of None \<Rightarrow> [] | Some i \<Rightarrow> [i])"
  by (simp only: first_named_def find_first_named)

lemma find_None_image: "find (\<lambda>i. f i = a) xs = None \<longleftrightarrow> a \<notin> f ` set xs"
  by (auto simp: find_None_iff)


lemma probe_name_eq:
  "probe_name name_of xs name pr pa =
     (map pr (first_named name_of xs name), Inr (pa \<or> name \<in> name_of ` set xs))"
proof (cases "find (\<lambda>i. name_of i = name) xs")
  case None
  then have "name \<notin> name_of ` set xs" by (simp add: find_None_image)
  with None show ?thesis
    by (simp add: probe_name_def first_named_find return_def)
next
  case (Some i)
  then have "name \<in> name_of ` set xs"
    using find_None_image [of name_of name xs] by auto
  with Some show ?thesis
    by (simp add: probe_name_def first_named_find return_def bind_emit)
qed

lemma print_tensor_name_eq:
  "print_tensor_name g d name pa =
     (map Print_value_info (first_named vi_name (g_value_info g) name) @
      map (\<lambda>t. Print_initializer t d) (first_named t_name (g_initializer g) name) @
      map Print_value_info (first_named vi_name (g_input g) name) @
      map Print_value_info (first_named vi_name (g_output g) name),
      Inr (pa \<or> name \<in> tensor_names g))"
  by (auto simp add: print_tensor_name_def probe_name_eq tensor_names_def)




text \<open>
  The name loops keep one flag for all names and test it once, after the loop: the
  not-found \<open>ValueError\<close> is raised exactly when no requested name matched anything,
  with the loop variable, by then the last name, in its message.
\<close>

lemma name_loop_error_condition:
  assumes "nms \<noteq> []"
  shows "snd (print_tensor g [] nms d) =
           (if \<exists>n\<in>set nms. n \<in> tensor_names g then Inr ()
            else Inl (ValueError (''No tensor found with name '' @ last nms)))
       \<and> snd (print_nodes g [] nms d) =
           (if \<exists>n\<in>set nms. n \<in> n_name ` set (g_node g) then Inr ()
            else Inl (ValueError (''No node found with name '' @ last nms)))"
proof -
  have lt: "snd (for_each nms (print_tensor_name g d) False)
              = Inr (False \<or> (\<exists>n\<in>set nms. n \<in> tensor_names g))"
    by (rule for_each_found) (simp add: print_tensor_name_eq)
  have ln: "snd (for_each nms
                  (\<lambda>name. probe_name n_name (g_node g) name (\<lambda>n. Print_node n d)) False)
              = Inr (False \<or> (\<exists>n\<in>set nms. n \<in> n_name ` set (g_node g)))"
    by (rule for_each_found) (simp add: probe_name_eq)
  have t: "snd (print_tensor g [] nms d) =
           (if \<exists>n\<in>set nms. n \<in> tensor_names g then Inr ()
            else Inl (ValueError (''No tensor found with name '' @ last nms)))"
    using assms
    by (simp add: print_tensor_def bind_emit snd_bind_Inr [OF lt] return_def raise_def)
  have n: "snd (print_nodes g [] nms d) =
           (if \<exists>n\<in>set nms. n \<in> n_name ` set (g_node g) then Inr ()
            else Inl (ValueError (''No node found with name '' @ last nms)))"
    using assms
    by (simp add: print_nodes_def bind_emit snd_bind_Inr [OF ln] return_def raise_def)
  from t n show ?thesis by (rule conjI)
qed

text \<open>
  C4. A requested name that matches nothing should end the lookup in the not-found
  \<open>ValueError\<close> naming it, whatever the other names do, as the index loops do for an
  index that matches nothing. The name loops do not: \<open>zz\<close> names no tensor and no
  node of the sample graph, yet the lookup of \<open>x\<close> and \<open>zz\<close> among the tensors, and
  of \<open>zz\<close> and \<open>r1\<close> among the nodes, report the match and return without error.
\<close>

theorem absent_name_beside_match_no_error:
  "''zz'' \<notin> tensor_names sample_graph
   \<and> print_tensor sample_graph [] [''x'', ''zz''] False =
       ([Print ''Tensor information:'', Print dashes,
         Print_value_info \<lparr>vi_name = ''x'', elem_type = 1, shape = [Dim_value 1]\<rparr>,
         Print_initializer \<lparr>t_name = ''x'', data_type = 1, dims = [3], float_data = []\<rparr> False],
        Inr ())
   \<and> ''zz'' \<notin> n_name ` set (g_node sample_graph)
   \<and> print_nodes sample_graph [] [''zz'', ''r1''] False =
       ([Print ''Node information:'', Print dashes,
         Print_node \<lparr>n_name = ''r1'', op_type = ''Relu'', n_input = [''x''],
                     n_output = [''y''], attribute = []\<rparr> False],
        Inr ())"
  by (simp add: tensor_names_def sample_graph_def print_tensor_def print_nodes_def bind_emit
        print_tensor_name_def probe_name_def return_def raise_def)

section \<open>Listing everything\<close>

lemma stdout_append: "stdout r (xs @ ys) = stdout r xs @ stdout r ys"
  by (simp add: stdout_def)

lemma stdout_Cons: "stdout r (c # cs) = lines_of r c @ stdout r cs"
  by (simp add: stdout_def)

lemma stdout_map: "stdout r (map f xs) = concat (map (\<lambda>x. lines_of r (f x)) xs)"
  by (simp add: stdout_def comp_def)

text \<open>
  C9. With no selector the tensor target lists all value-infos, then all
  initializers, each in collection order, and nothing else; every initializer goes
  through \<open>print_initializer\<close> with the detail flag off, whatever \<open>--detail\<close> says, so
  it is written as its single summary line.
\<close>

theorem print_tensor_all:
  "print_tensor g [] [] d =
     (Print ''Tensor information:'' # Print dashes #
        map Print_value_info (g_value_info g) @
        map (\<lambda>t. Print_initializer t False) (g_initializer g),
      Inr ())
   \<and> stdout r (fst (print_tensor g [] [] d)) =
       ''Tensor information:'' # dashes #
         concat (map (print_value_info r) (g_value_info g)) @
         concat (map (\<lambda>t. print_initializer r t False) (g_initializer g))
   \<and> length (print_initializer r t False) = 1"
proof -
  have p: "print_tensor g [] [] d =
     (Print ''Tensor information:'' # Print dashes #
        map Print_value_info (g_value_info g) @
        map (\<lambda>t. Print_initializer t False) (g_initializer g),
      Inr ())"
    by (simp add: print_tensor_def bind_emit for_each_emit bind_pair_Inr)
  have s: "stdout r (fst (print_tensor g [] [] d)) =
       ''Tensor information:'' # dashes #
         concat (map (print_value_info r) (g_value_info g)) @
         concat (map (\<lambda>t. print_initializer r t False) (g_initializer g))"
    unfolding p by (simp add: stdout_Cons stdout_append stdout_map)
  have l: "length (print_initializer r t False) = 1"
    by (simp add: print_initializer_def)
  from p s l show ?thesis by simp
qed

section \<open>The node-type histogram\<close>

lemma sum_count_up: "sum_list (map snd (count_up k d)) = Suc (sum_list (map snd d))"
  by (induction k d rule: count_up.induct) auto

lemma Counter_snoc: "Counter (xs @ [x]) = count_up x (Counter xs)"
  by (simp add: Counter_def)

lemma sum_Counter: "sum_list (map snd (Counter xs)) = length xs"
proof (induction xs rule: rev_induct)
  case Nil
  show ?case by (simp add: Counter_def)
next
  case (snoc x xs)
  then show ?case by (simp add: Counter_snoc sum_count_up)
qed

lemma keys_count_up:
  "map fst (count_up k d) = (if k \<in> fst ` set d then map fst d else map fst d @ [k])"
  by (induction k d rule: count_up.induct) auto

lemma keys_Counter: "set (map fst (Counter xs)) = set xs"
proof (induction xs rule: rev_induct)
  case Nil
  show ?case by (simp add: Counter_def)
next
  case (snoc x xs)
  then show ?case by (auto simp add: Counter_snoc keys_count_up)
qed

lemma first_index_less: "a \<in> set xs \<Longrightarrow> first_index xs a < length xs"
  by (induction xs) auto

lemma first_index_append_in: "a \<in> set xs \<Longrightarrow> first_index (xs @ ys) a = first_index xs a"
  by (induction xs) auto

lemma first_index_snoc_new: "a \<notin> set xs \<Longrightarrow> first_index (xs @ [a]) a = length xs"
  by (induction xs) auto

text \<open>The counter keeps its keys in the order in which they were first met.\<close>

lemma keys_Counter_order:
  "sorted_wrt (\<lambda>a b. first_index xs a < first_index xs b) (map fst (Counter xs))"
proof (induction xs rule: rev_induct)
  case Nil
  show ?case by (simp add: Counter_def)
next
  case (snoc x xs)
  let ?K = "map fst (Counter xs)"
  have K: "set ?K = set xs" by (rule keys_Counter)
  have old: "sorted_wrt (\<lambda>a b. first_index (xs @ [x]) a < first_index (xs @ [x]) b) ?K"
  proof (rule sorted_wrt_mono_rel [OF _ snoc.IH])
    fix a b assume "a \<in> set ?K" "b \<in> set ?K" "first_index xs a < first_index xs b"
    then show "first_index (xs @ [x]) a < first_index (xs @ [x]) b"
      using K by (simp add: first_index_append_in)
  qed
  show ?case
  proof (cases "x \<in> set xs")
    case True
    then have "map fst (Counter (xs @ [x])) = ?K"
      using K by (simp add: Counter_snoc keys_count_up)
    with old show ?thesis by simp
  next
    case False
    then have eq: "map fst (Counter (xs @ [x])) = ?K @ [x]"
      using K by (simp add: Counter_snoc keys_count_up)
    have "\<forall>a\<in>set ?K. first_index (xs @ [x]) a < first_index (xs @ [x]) x"
      using K False by (simp add: first_index_append_in first_index_snoc_new first_index_less)
    with old show ?thesis
      unfolding eq by (simp add: sorted_wrt_append)
  qed
qed

text \<open>A stable sort orders by key and leaves elements of equal key as they were.\<close>

lemma insort_key_stable_order:
  fixes f :: "'a \<Rightarrow> int"
  assumes "sorted_wrt (\<lambda>a b. f a < f b \<or> (f a = f b \<and> Q a b)) ys"
    and "\<forall>y\<in>set ys. Q x y"
  shows "sorted_wrt (\<lambda>a b. f a < f b \<or> (f a = f b \<and> Q a b)) (insort_key f x ys)"
  using assms
proof (induction ys)
  case Nil
  show ?case by simp
next
  case (Cons y ys)
  show ?case
  proof (cases "f x \<le> f y")
    case True
    have "\<forall>z\<in>set (y # ys). f x < f z \<or> (f x = f z \<and> Q x z)"
      using True Cons.prems by fastforce
    with True Cons.prems(1) show ?thesis by simp
  next
    case False
    have "sorted_wrt (\<lambda>a b. f a < f b \<or> (f a = f b \<and> Q a b)) (insort_key f x ys)"
      using Cons by simp
    with False Cons.prems(1) show ?thesis by (auto simp: set_insort_key)
  qed
qed

lemma sort_key_stable_order:
  fixes f :: "'a \<Rightarrow> int"
  assumes "sorted_wrt Q xs"
  shows "sorted_wrt (\<lambda>a b. f a < f b \<or> (f a = f b \<and> Q a b)) (sort_key f xs)"
  using assms
proof (induction xs)
  case Nil
  show ?case by simp
next
  case (Cons x xs)
  then show ?case by (simp add: insort_key_stable_order)
qed

lemma sum_insort_key:
  fixes ys :: "('k \<times> nat) list"
  shows "sum_list (map snd (insort_key f x ys)) = snd x + sum_list (map snd ys)"
  by (induction ys) auto

lemma sum_most_common: "sum_list (map snd (most_common d)) = sum_list (map snd d)"
  unfolding most_common_def by (induction d) (simp_all add: sum_insort_key)

lemma most_common_order:
  "sorted_wrt (\<lambda>a b. snd b < snd a \<or>
                  (snd a = snd b \<and> first_index xs (fst a) < first_index xs (fst b)))
     (most_common (Counter xs))"
proof -
  have "sorted_wrt (\<lambda>a b. first_index xs (fst a) < first_index xs (fst b)) (Counter xs)"
    using keys_Counter_order [of xs] by (simp add: sorted_wrt_map)
  then have "sorted_wrt (\<lambda>a b. - int (snd a) < - int (snd b) \<or>
                 (- int (snd a) = - int (snd b) \<and>
                  first_index xs (fst a) < first_index xs (fst b)))
               (sort_key (\<lambda>kc. - int (snd kc)) (Counter xs))"
    by (rule sort_key_stable_order)
  then show ?thesis by (simp add: most_common_def)
qed

text \<open>
  C8. With the node target and no selector, the histogram lines come before the
  listing of the nodes; the counts of the histogram add up to the number of nodes;
  and of two entries the earlier one has the larger count, or the same count and an
  operation type first met earlier among the nodes.
\<close>

theorem node_histogram:
  "print_nodes g [] [] d =
     (Print ''Node information:'' # Print dashes #
        map node_type_line (most_common (Counter (map op_type (g_node g)))) @
        Print dashes # map (\<lambda>n. Print_node n False) (g_node g),
      Inr ())
   \<and> sum_list (map snd (most_common (Counter (map op_type (g_node g))))) = length (g_node g)
   \<and> sorted_wrt (\<lambda>a b. snd b < snd a \<or>
         (snd a = snd b \<and> first_index (map op_type (g_node g)) (fst a)
                             < first_index (map op_type (g_node g)) (fst b)))
       (most_common (Counter (map op_type (g_node g))))"
proof -
  have p: "print_nodes g [] [] d =
     (Print ''Node information:'' # Print dashes #
        map node_type_line (most_common (Counter (map op_type (g_node g)))) @
        Print dashes # map (\<lambda>n. Print_node n False) (g_node g),
      Inr ())"
    by (simp add: print_nodes_def bind_emit for_each_emit bind_pair_Inr)
  have s: "sum_list (map snd (most_common (Counter (map op_type (g_node g))))) = length (g_node g)"
    by (simp add: sum_most_common sum_Counter)
  show ?thesis using p s most_common_order [of "map op_type (g_node g)"] by simp
qed

theorem node_histogram_witness:
  "fst (print_nodes sample_graph [] [] True) =
     [Print ''Node information:'', Print dashes,
      Print (''  Node type '' @ [CHR 0x22] @ ''Conv'' @ [CHR 0x22] @ '' has: 2''),
      Print (''  Node type '' @ [CHR 0x22] @ ''Relu'' @ [CHR 0x22] @ '' has: 1''),
      Print dashes,
      Print_node \<lparr>n_name = ''c1'', op_type = ''Conv'', n_input = [''in''], n_output = [''x''],
                  attribute = []\<rparr> False,
      Print_node \<lparr>n_name = ''r1'', op_type = ''Relu'', n_input = [''x''], n_output = [''y''],
                  attribute = []\<rparr> False,
      Print_node \<lparr>n_name = ''c2'', op_type = ''Conv'', n_input = [''y''], n_output = [''out''],
                  attribute = []\<rparr> False]"
  using node_histogram [of sample_graph True]
  by (simp add: sample_graph_def Counter_def most_common_def node_type_line_def
        str_nat.simps digit_char_def)

end
